theory Spec2Isabelle
  imports Complex_Main
begin

section \<open>Python values and exceptions\<close>

text \<open>
  The analytics code of the repository (\<^verbatim>\<open>core/ml/plexe_service.py\<close>,
  \<^verbatim>\<open>core/ml/views.py\<close>, \<^verbatim>\<open>core/ml/serializers.py\<close>,
  \<^verbatim>\<open>core/ml/models.py\<close>) is embedded as HOL functions.

  A feature mapping is a Python \<^verbatim>\<open>dict\<close> from strings to values that are
  strings, integers or floats. Python's \<^verbatim>\<open>int\<close> is unbounded and becomes
  \<^typ>\<open>int\<close>. Python's \<^verbatim>\<open>float\<close> and Django's \<^verbatim>\<open>Decimal\<close> are
  both read as the exact real number they denote: every arithmetic operation below is
  exact, so binary rounding error, infinities and NaN are outside the model.
\<close>

datatype pyval = PyNone | PyStr string | PyInt int | PyFloat real

datatype error =
    TypeError
  | ZeroDivisionError
  | RuntimeError string
  | ValueError string
  | ExternalError string
  | Http404

type_synonym features = "string \<rightharpoonup> pyval"

text \<open>The numeric value of a Python value; \<open>None\<close> where arithmetic on it raises.\<close>

fun num_of :: "pyval \<Rightarrow> real option" where
  "num_of (PyInt i) = Some (of_int i)"
| "num_of (PyFloat r) = Some r"
| "num_of PyNone = None"
| "num_of (PyStr s) = None"

text \<open>Truth value of an object, as \<^verbatim>\<open>x or y\<close> tests it.\<close>

fun truthy :: "pyval \<Rightarrow> bool" where
  "truthy PyNone = False"
| "truthy (PyStr s) = (s \<noteq> [])"
| "truthy (PyInt i) = (i \<noteq> 0)"
| "truthy (PyFloat r) = (r \<noteq> 0)"

definition py_or :: "pyval \<Rightarrow> pyval \<Rightarrow> pyval" where
  "py_or a b = (if truthy a then a else b)"

text \<open>\<^verbatim>\<open>d.get(key, default)\<close>.\<close>

definition dict_get :: "features \<Rightarrow> string \<Rightarrow> pyval \<Rightarrow> pyval" where
  "dict_get d k dflt = (case d k of None \<Rightarrow> dflt | Some v \<Rightarrow> v)"

text \<open>True division \<^verbatim>\<open>a / b\<close> of two objects.\<close>

definition truediv :: "pyval \<Rightarrow> pyval \<Rightarrow> error + real" where
  "truediv a b =
     (case num_of a of
        None \<Rightarrow> Inl TypeError
      | Some x \<Rightarrow>
          (case num_of b of
             None \<Rightarrow> Inl TypeError
           | Some y \<Rightarrow> if y = 0 then Inl ZeroDivisionError else Inr (x / y)))"

text \<open>\<^verbatim>\<open>max(1, v)\<close>: the comparison raises on a string or \<open>None\<close>.\<close>

definition max_one :: "pyval \<Rightarrow> error + real" where
  "max_one v = (case num_of v of None \<Rightarrow> Inl TypeError | Some x \<Rightarrow> Inr (max 1 x))"

text \<open>\<^verbatim>\<open>int(x)\<close> on a float truncates towards zero.\<close>

definition py_int :: "real \<Rightarrow> int" where
  "py_int x = (if 0 \<le> x then \<lfloor>x\<rfloor> else \<lceil>x\<rceil>)"

text \<open>
  \<^verbatim>\<open>round(x, n)\<close>: the nearest multiple of \<open>10\<^sup>-\<^sup>n\<close>, a tie going to the
  even neighbour.
\<close>

definition round_half_even :: "real \<Rightarrow> int" where
  "round_half_even x =
     (let f = \<lfloor>x\<rfloor>; d = x - of_int f in
      if d < 1 / 2 then f
      else if 1 / 2 < d then f + 1
      else if even f then f else f + 1)"

definition py_round :: "real \<Rightarrow> nat \<Rightarrow> real" where
  "py_round x n = of_int (round_half_even (x * 10 ^ n)) / 10 ^ n"

section \<open>The heuristic predictor\<close>

text \<open>
  \<^verbatim>\<open>_heuristic_predict(prediction_type, features)\<close> of \<^verbatim>\<open>views.py\<close>. The
  model kinds are the strings of \<^verbatim>\<open>MLModel.ModelType\<close>. The result is the pair
  (predicted value, confidence), or the exception the arithmetic raises.
\<close>

definition SUCCESS_PREDICTION :: string where
  "SUCCESS_PREDICTION = ''success_prediction''"

definition DEMAND_FORECAST :: string where
  "DEMAND_FORECAST = ''demand_forecast''"

definition PRICE_OPTIMIZATION :: string where
  "PRICE_OPTIMIZATION = ''price_optimization''"

definition heuristic_predict :: "string \<Rightarrow> features \<Rightarrow> error + (real \<times> real)" where
  "heuristic_predict prediction_type feats =
     (if prediction_type = SUCCESS_PREDICTION then
        (case truediv (dict_get feats ''progress'' (PyInt 0)) (PyFloat 100) of
           Inl e \<Rightarrow> Inl e
         | Inr progress \<Rightarrow>
             (case max_one (dict_get feats ''days_active'' (PyInt 1)) of
                Inl e \<Rightarrow> Inl e
              | Inr days_active \<Rightarrow>
                  (case truediv (dict_get feats ''participant_count'' (PyInt 0)) (PyInt 10) of
                     Inl e \<Rightarrow> Inl e
                   | Inr pc10 \<Rightarrow>
                       (let score = 6 / 10 * progress
                                  + 3 / 10 * min 1 pc10
                                  + 1 / 10 * min 1 (days_active / 30)
                        in Inr (py_round (min 1 score) 4, 1 / 2)))))
      else if prediction_type = DEMAND_FORECAST then
        (let target = dict_get feats ''target_amount'' (PyInt 1000);
             price = py_or (dict_get feats ''price_per_unit'' (PyInt 0)) (PyInt 1)
         in case truediv target price of
              Inl e \<Rightarrow> Inl e
            | Inr estimated_units \<Rightarrow>
                (let estimated_participants = max 1 (py_int (estimated_units / 5))
                 in Inr (of_int estimated_participants, 4 / 10)))
      else
        (let target = dict_get feats ''target_amount'' (PyInt 1000)
         in case max_one (dict_get feats ''participant_count'' (PyInt 1)) of
              Inl e \<Rightarrow> Inl e
            | Inr participants \<Rightarrow>
                (case truediv target (PyFloat participants) of
                   Inl e \<Rightarrow> Inl e
                 | Inr suggested_price \<Rightarrow> Inr (py_round suggested_price 2, 35 / 100))))"

section \<open>Procurement records\<close>

text \<open>
  Modelled from the spec: the \<^verbatim>\<open>Procurement\<close> class of
  \<^verbatim>\<open>procurements/models.py\<close> is imported by the analytics code but is not part of
  the sources at hand. Its attributes are taken from the data model of the specification:
  a nullable category reference with a name, a nullable city, decimal target and current
  amounts, a nullable decimal price per unit, a non-negative participant count, creation
  and deadline timestamps, a status string and the derived progress percentage.
  A timestamp is the number of microseconds since the epoch, the resolution of
  \<^verbatim>\<open>datetime\<close>.
\<close>

datatype category = Category (category_name: string)

record procurement =
  pk :: int
  title :: string
  category :: "category option"
  city :: "string option"
  target_amount :: real
  current_amount :: real
  price_per_unit :: "real option"
  participant_count :: nat
  created_at :: int
  deadline :: int
  status :: string
  progress :: real

text \<open>
  \<^verbatim>\<open>(a - b).days\<close>: a \<^verbatim>\<open>timedelta\<close> is normalised so that its seconds and
  microseconds are non-negative, hence \<^verbatim>\<open>days\<close> is the floor of the difference
  in days.
\<close>

definition timedelta_days :: "int \<Rightarrow> int \<Rightarrow> int" where
  "timedelta_days a b = (a - b) div 86400000000"

section \<open>Feature extraction and dataset building\<close>

text \<open>The fields shared by \<^verbatim>\<open>extract_features\<close> and the two dataset builders.\<close>

definition category_or_unknown :: "procurement \<Rightarrow> pyval" where
  "category_or_unknown p =
     (case category p of None \<Rightarrow> PyStr ''unknown'' | Some c \<Rightarrow> PyStr (category_name c))"

definition city_or_unknown :: "procurement \<Rightarrow> pyval" where
  "city_or_unknown p =
     (case city p of
        None \<Rightarrow> PyStr ''unknown''
      | Some s \<Rightarrow> if s = [] then PyStr ''unknown'' else PyStr s)"

definition price_or_zero :: "procurement \<Rightarrow> pyval" where
  "price_or_zero p =
     (case price_per_unit p of
        None \<Rightarrow> PyFloat 0
      | Some x \<Rightarrow> if x \<noteq> 0 then PyFloat x else PyFloat 0)"

definition days_active_of :: "procurement \<Rightarrow> pyval" where
  "days_active_of p = PyInt (max 0 (timedelta_days (deadline p) (created_at p)))"

text \<open>\<^verbatim>\<open>PlexeService.extract_features\<close>.\<close>

definition extract_features :: "procurement \<Rightarrow> features" where
  "extract_features p =
     [ ''category'' \<mapsto> category_or_unknown p,
       ''city'' \<mapsto> city_or_unknown p,
       ''target_amount'' \<mapsto> PyFloat (target_amount p),
       ''participant_count'' \<mapsto> PyInt (int (participant_count p)),
       ''days_active'' \<mapsto> days_active_of p,
       ''price_per_unit'' \<mapsto> price_or_zero p,
       ''current_amount'' \<mapsto> PyFloat (current_amount p),
       ''progress'' \<mapsto> PyFloat (progress p) ]"

text \<open>
  \<^verbatim>\<open>pandas.DataFrame(rows)\<close> on a list of dictionaries: one row for each
  dictionary, and a column for each key that occurs in some row. \<^verbatim>\<open>df.empty\<close>
  holds when an axis has length zero; \<^verbatim>\<open>len(df)\<close> is the number of rows.
\<close>

record dataframe =
  columns :: "string set"
  rows :: "features list"

definition DataFrame :: "features list \<Rightarrow> dataframe" where
  "DataFrame rs = \<lparr>columns = (\<Union>r \<in> set rs. dom r), rows = rs\<rparr>"

definition df_empty :: "dataframe \<Rightarrow> bool" where
  "df_empty df = (rows df = [] \<or> columns df = {})"

definition df_len :: "dataframe \<Rightarrow> nat" where
  "df_len df = length (rows df)"

text \<open>The dictionary appended for one record by \<^verbatim>\<open>_build_success_dataset\<close>.\<close>

definition success_row :: "procurement \<Rightarrow> features" where
  "success_row p =
     [ ''category'' \<mapsto> category_or_unknown p,
       ''city'' \<mapsto> city_or_unknown p,
       ''target_amount'' \<mapsto> PyFloat (target_amount p),
       ''participant_count'' \<mapsto> PyInt (int (participant_count p)),
       ''days_active'' \<mapsto> days_active_of p,
       ''price_per_unit'' \<mapsto> price_or_zero p,
       ''successful'' \<mapsto> PyInt (if status p = ''completed'' then 1 else 0) ]"

definition build_success_dataset :: "procurement list \<Rightarrow> dataframe" where
  "build_success_dataset procurements_qs = DataFrame (map success_row procurements_qs)"

text \<open>The dictionary appended for one record by \<^verbatim>\<open>_build_demand_dataset\<close>.\<close>

definition demand_row :: "procurement \<Rightarrow> features" where
  "demand_row p =
     [ ''category'' \<mapsto> category_or_unknown p,
       ''city'' \<mapsto> city_or_unknown p,
       ''target_amount'' \<mapsto> PyFloat (target_amount p),
       ''price_per_unit'' \<mapsto> price_or_zero p,
       ''participant_count'' \<mapsto> PyInt (int (participant_count p)) ]"

definition build_demand_dataset :: "procurement list \<Rightarrow> dataframe" where
  "build_demand_dataset procurements_qs = DataFrame (map demand_row procurements_qs)"

section \<open>The training orchestrator\<close>

text \<open>
  The external trainer \<^verbatim>\<open>plexe.main.main\<close>, the availability flag set when the module
  is imported and \<^verbatim>\<open>tempfile.mkdtemp\<close> are collaborators outside the repository: they
  are the fields of an environment; the views and the service read the same flag. What a
  training run does to the outside world
  (a temporary directory, the artifact directory, the dataset file, the call of the trainer)
  is appended to a log of effects, so that a run that never reaches the trainer is a run
  whose log holds no \<open>PlexeMain\<close> entry. Directory creation and the writing of the dataset
  are taken to succeed; a path is the string it is built from.
\<close>

record solution =
  solution_performance :: real

type_synonym metrics = "(string \<times> real) list"

datatype effect =
    Mkdtemp string
  | Mkdir string
  | ToParquet string dataframe
  | PlexeMain string "string list" int string

record env =
  PLEXE_AVAILABLE :: bool
  plexe_main :: "string \<Rightarrow> string list \<Rightarrow> int \<Rightarrow> string \<Rightarrow> error + (solution option \<times> metrics)"
  mkdtemp :: "string \<Rightarrow> string"

record train_result =
  res_performance :: real
  res_artifact_path :: string
  res_metrics :: metrics
  res_dataset_rows :: nat

definition require_plexe :: "env \<Rightarrow> error + unit" where
  "require_plexe ev =
     (if \<not> PLEXE_AVAILABLE ev
      then Inl (RuntimeError ''plexe is not installed. Install it with: pip install plexe'')
      else Inr ())"

text \<open>
  The part that both training methods run once the dataset is known to be non-empty:
  the artifact directory, the dataset file, the call of the trainer and the packaging
  of its answer.
\<close>

definition persist_and_train ::
  "env \<Rightarrow> string \<Rightarrow> string \<Rightarrow> string \<Rightarrow> dataframe \<Rightarrow> string option \<Rightarrow> int \<Rightarrow> effect list
     \<Rightarrow> (error + train_result) \<times> effect list" where
  "persist_and_train ev prefix file_name intent_text df work_dir max_iterations effs =
     (let tmp_dir = mkdtemp ev prefix;
          artifact_dir = (case work_dir of
                            None \<Rightarrow> tmp_dir
                          | Some w \<Rightarrow> if w = [] then tmp_dir else w);
          dataset_path = artifact_dir @ ''/'' @ file_name;
          effs' = effs @ [Mkdtemp prefix, Mkdir artifact_dir, ToParquet dataset_path df,
                        PlexeMain intent_text [dataset_path] max_iterations artifact_dir]
      in case plexe_main ev intent_text [dataset_path] max_iterations artifact_dir of
           Inl e \<Rightarrow> (Inl e, effs')
         | Inr (best_solution, ms) \<Rightarrow>
             (Inr \<lparr>res_performance = (case best_solution of
                                        None \<Rightarrow> 0
                                      | Some s \<Rightarrow> solution_performance s),
                   res_artifact_path = artifact_dir,
                   res_metrics = ms,
                   res_dataset_rows = df_len df\<rparr>, effs'))"

definition success_intent :: string where
  "success_intent =
     ''Predict whether a group procurement will be successful '' @
     ''(reach its target amount) based on category, city, target_amount, '' @
     ''participant_count, days_active, and price_per_unit.''"

definition demand_intent :: string where
  "demand_intent =
     ''Predict the total number of participants that will join a procurement '' @
     ''based on category, city, target_amount, and price_per_unit.''"

text \<open>
  \<^verbatim>\<open>PlexeService.train_success_model\<close>. \<open>objects\<close> is the table of procurements that
  the default query filters; \<open>procurements_qs\<close> is the optional argument.
\<close>

definition train_success_model ::
  "env \<Rightarrow> procurement list \<Rightarrow> procurement list option \<Rightarrow> string option \<Rightarrow> int \<Rightarrow> effect list
     \<Rightarrow> (error + train_result) \<times> effect list" where
  "train_success_model ev objects procurements_qs work_dir max_iterations effs =
     (case require_plexe ev of
        Inl e \<Rightarrow> (Inl e, effs)
      | Inr _ \<Rightarrow>
          (let qs = (case procurements_qs of
                       None \<Rightarrow> filter (\<lambda>p. status p \<in> set [''completed'', ''cancelled'']) objects
                     | Some q \<Rightarrow> q);
               df = build_success_dataset qs
           in if df_empty df
              then (Inl (ValueError
                      ''Not enough training data. Need completed/cancelled procurements.''), effs)
              else persist_and_train ev ''plexe_success_'' ''success_dataset.parquet''
                     success_intent df work_dir max_iterations effs))"

text \<open>\<^verbatim>\<open>PlexeService.train_demand_forecast_model\<close>.\<close>

definition train_demand_forecast_model ::
  "env \<Rightarrow> procurement list \<Rightarrow> procurement list option \<Rightarrow> string option \<Rightarrow> int \<Rightarrow> effect list
     \<Rightarrow> (error + train_result) \<times> effect list" where
  "train_demand_forecast_model ev objects procurements_qs work_dir max_iterations effs =
     (case require_plexe ev of
        Inl e \<Rightarrow> (Inl e, effs)
      | Inr _ \<Rightarrow>
          (let qs = (case procurements_qs of
                       None \<Rightarrow> filter (\<lambda>p. status p = ''completed'') objects
                     | Some q \<Rightarrow> q);
               df = build_demand_dataset qs
           in if df_empty df
              then (Inl (ValueError ''Not enough training data. Need completed procurements.''),
                    effs)
              else persist_and_train ev ''plexe_demand_'' ''demand_dataset.parquet''
                     demand_intent df work_dir max_iterations effs))"

section \<open>Stored records\<close>

text \<open>
  \<^verbatim>\<open>MLModel\<close> and \<^verbatim>\<open>ProcurementPrediction\<close> of \<^verbatim>\<open>models.py\<close>. The
  JSON field \<^verbatim>\<open>training_metadata\<close> takes one of the three shapes the views give it.
  A foreign key is the primary key it refers to.
\<close>

datatype model_status = TRAINING | READY | FAILED

datatype metadata =
    EmptyMetadata
  | ErrorMetadata string
  | RunMetadata metrics nat

record ml_model =
  model_id :: nat
  name :: string
  model_type :: string
  model_status :: model_status
  intent :: string
  performance :: "real option"
  artifact_path :: string
  training_metadata :: metadata
  model_created_at :: int
  updated_at :: int

record prediction =
  prediction_id :: nat
  procurement_ref :: int
  ml_model_ref :: "nat option"
  prediction_type :: string
  predicted_value :: real
  confidence :: "real option"
  input_features :: features
  prediction_created_at :: int

text \<open>
  The state the views work on: the three tables and the log of effects of the
  training runs.
\<close>

record world =
  procurements :: "procurement list"
  ml_models :: "ml_model list"
  predictions :: "prediction list"
  effects :: "effect list"

text \<open>The key the database gives a new row: one more than the largest key in use.\<close>

definition new_id :: "nat list \<Rightarrow> nat" where
  "new_id ids = Suc (fold max ids 0)"

text \<open>
  \<^verbatim>\<open>instance.save(...)\<close> writes the row with the key of the instance; \<open>upd\<close> copies
  the saved fields of the instance into the stored row.
\<close>

definition save_model :: "(ml_model \<Rightarrow> ml_model) \<Rightarrow> nat \<Rightarrow> world \<Rightarrow> world" where
  "save_model upd k w =
     w\<lparr>ml_models := map (\<lambda>m. if model_id m = k then upd m else m) (ml_models w)\<rparr>"

section \<open>Request serializers\<close>

text \<open>
  \<^verbatim>\<open>TrainModelSerializer\<close> and \<^verbatim>\<open>PredictSerializer\<close> of \<^verbatim>\<open>serializers.py\<close>.
  A request body is read with each field either absent or holding a value of the JSON
  type the field declares. A validation failure is the list of the fields in error, each
  with the reason.
\<close>

datatype field_error =
    Required
  | InvalidChoice string
  | MinValue int
  | MaxValue int

definition ModelType_choices :: "string list" where
  "ModelType_choices = [SUCCESS_PREDICTION, DEMAND_FORECAST, PRICE_OPTIMIZATION]"

record train_data =
  data_model_type :: "string option"
  data_max_iterations :: "int option"
  data_work_dir :: "string option"

record predict_data =
  data_procurement_id :: "int option"
  data_prediction_type :: "string option"

text \<open>A \<^verbatim>\<open>ChoiceField\<close> over the model kinds, without and with a default.\<close>

definition choice_field :: "string \<Rightarrow> string option \<Rightarrow> string option \<Rightarrow> (string \<times> field_error) list + string" where
  "choice_field field_name dflt v =
     (case v of
        None \<Rightarrow> (case dflt of None \<Rightarrow> Inl [(field_name, Required)] | Some d \<Rightarrow> Inr d)
      | Some s \<Rightarrow> if s \<in> set ModelType_choices then Inr s
                  else Inl [(field_name, InvalidChoice s)])"

text \<open>An \<^verbatim>\<open>IntegerField\<close> with optional default and bounds.\<close>

definition integer_field ::
  "string \<Rightarrow> int option \<Rightarrow> int option \<Rightarrow> int option \<Rightarrow> int option \<Rightarrow> (string \<times> field_error) list + int" where
  "integer_field field_name dflt min_value max_value v =
     (case v of
        None \<Rightarrow> (case dflt of None \<Rightarrow> Inl [(field_name, Required)] | Some d \<Rightarrow> Inr d)
      | Some n \<Rightarrow>
          (case max_value of
             Some hi \<Rightarrow> if hi < n then Inl [(field_name, MaxValue hi)]
                       else (case min_value of
                               Some lo \<Rightarrow> if n < lo then Inl [(field_name, MinValue lo)] else Inr n
                             | None \<Rightarrow> Inr n)
           | None \<Rightarrow> (case min_value of
                        Some lo \<Rightarrow> if n < lo then Inl [(field_name, MinValue lo)] else Inr n
                      | None \<Rightarrow> Inr n)))"

text \<open>
  A \<^verbatim>\<open>CharField(required=False, allow_blank=True)\<close>: surrounding white space is
  trimmed.
\<close>

definition is_space :: "char \<Rightarrow> bool" where
  "is_space c = (c \<in> set [CHR '' '', CHR 0x09, CHR 0x0A, CHR 0x0B, CHR 0x0C, CHR 0x0D])"

definition strip :: "string \<Rightarrow> string" where
  "strip s = rev (dropWhile is_space (rev (dropWhile is_space s)))"

definition errors_of :: "'e list + 'a \<Rightarrow> 'e list" where
  "errors_of r = (case r of Inl es \<Rightarrow> es | Inr _ \<Rightarrow> [])"

definition TrainModelSerializer ::
  "train_data \<Rightarrow> (string \<times> field_error) list + (string \<times> int \<times> string option)" where
  "TrainModelSerializer d =
     (let mt = choice_field ''model_type'' None (data_model_type d);
          mi = integer_field ''max_iterations'' (Some 3) (Some 1) (Some 20) (data_max_iterations d);
          wd = map_option strip (data_work_dir d)
      in case (mt, mi) of
           (Inr mtype, Inr max_iterations) \<Rightarrow> Inr (mtype, max_iterations, wd)
         | _ \<Rightarrow> Inl (errors_of mt @ errors_of mi))"

definition PredictSerializer ::
  "predict_data \<Rightarrow> (string \<times> field_error) list + (int \<times> string)" where
  "PredictSerializer d =
     (let pid = integer_field ''procurement_id'' None None None (data_procurement_id d);
          pt = choice_field ''prediction_type'' (Some SUCCESS_PREDICTION) (data_prediction_type d)
      in case (pid, pt) of
           (Inr procurement_id, Inr ptype) \<Rightarrow> Inr (procurement_id, ptype)
         | _ \<Rightarrow> Inl (errors_of pid @ errors_of pt))"

section \<open>The views\<close>

datatype payload =
    FieldErrors "(string \<times> field_error) list"
  | ErrorDetail "(string \<times> string) list"
  | ModelData ml_model
  | PredictionData prediction string

datatype response = Response (response_data: payload) (status_code: nat)

definition HTTP_201_CREATED :: nat where "HTTP_201_CREATED = 201"
definition HTTP_400_BAD_REQUEST :: nat where "HTTP_400_BAD_REQUEST = 400"
definition HTTP_500_INTERNAL_SERVER_ERROR :: nat where "HTTP_500_INTERNAL_SERVER_ERROR = 500"
definition HTTP_503_SERVICE_UNAVAILABLE :: nat where "HTTP_503_SERVICE_UNAVAILABLE = 503"

text \<open>
  \<^verbatim>\<open>str(exc)\<close>. The training methods raise only the three exceptions that carry a
  message; the other cases are never reached from \<open>train\<close>.
\<close>

fun str_exc :: "error \<Rightarrow> string" where
  "str_exc (RuntimeError m) = m"
| "str_exc (ValueError m) = m"
| "str_exc (ExternalError m) = m"
| "str_exc TypeError = ''TypeError''"
| "str_exc ZeroDivisionError = ''division by zero''"
| "str_exc Http404 = ''Not Found''"

text \<open>
  \<^verbatim>\<open>MLModelViewSet.train\<close>. \<open>now\<close> is the time at which the record is created and
  \<open>later\<close> the time at which it is saved again.
\<close>

definition train :: "env \<Rightarrow> train_data \<Rightarrow> int \<Rightarrow> int \<Rightarrow> world \<Rightarrow> response \<times> world" where
  "train ev request_data now later w =
     (if \<not> PLEXE_AVAILABLE ev then
        (Response (ErrorDetail [(''error'', ''plexe is not installed.''),
                                (''hint'', ''pip install plexe'')])
           HTTP_503_SERVICE_UNAVAILABLE, w)
      else
        (case TrainModelSerializer request_data of
           Inl errors \<Rightarrow> (Response (FieldErrors errors) HTTP_400_BAD_REQUEST, w)
         | Inr (mtype, max_iterations, wd) \<Rightarrow>
             (let work_dir = (case wd of None \<Rightarrow> None
                                       | Some s \<Rightarrow> if s = [] then None else Some s);
                  ml = \<lparr>model_id = new_id (map model_id (ml_models w)),
                        name = ''plexe-'' @ mtype,
                        model_type = mtype,
                        model_status = TRAINING,
                        intent = ''Automated plexe training for '' @ mtype,
                        performance = None,
                        artifact_path = [],
                        training_metadata = EmptyMetadata,
                        model_created_at = now,
                        updated_at = now\<rparr>;
                  w1 = w\<lparr>ml_models := ml_models w @ [ml]\<rparr>;
                  finish = (\<lambda>(outcome, effs).
                     (let w2 = w1\<lparr>effects := effs\<rparr> in
                      case outcome of
                        Inr result \<Rightarrow>
                          (let ml' = ml\<lparr>performance := Some (res_performance result),
                                         artifact_path := res_artifact_path result,
                                         training_metadata :=
                                           RunMetadata (res_metrics result) (res_dataset_rows result),
                                         model_status := READY,
                                         updated_at := later\<rparr>
                           in (Response (ModelData ml') HTTP_201_CREATED,
                               save_model (\<lambda>_. ml') (model_id ml) w2))
                      | Inl exc \<Rightarrow>
                          (Response (ErrorDetail [(''error'', str_exc exc)])
                             HTTP_500_INTERNAL_SERVER_ERROR,
                           save_model (\<lambda>m. m\<lparr>model_status := FAILED,
                                               training_metadata := ErrorMetadata (str_exc exc),
                                               updated_at := later\<rparr>) (model_id ml) w2)))
              in if mtype = SUCCESS_PREDICTION then
                   finish (train_success_model ev (procurements w) None work_dir max_iterations
                             (effects w))
                 else if mtype = DEMAND_FORECAST then
                   finish (train_demand_forecast_model ev (procurements w) None work_dir
                             max_iterations (effects w))
                 else
                   (Response (ErrorDetail [(''error'', ''Unsupported model_type: '' @ mtype)])
                      HTTP_400_BAD_REQUEST,
                    save_model (\<lambda>m. m\<lparr>model_status := FAILED, updated_at := later\<rparr>)
                      (model_id ml) w1))))"

text \<open>\<^verbatim>\<open>get_object_or_404(Procurement, pk=...)\<close>.\<close>

definition get_object_or_404 :: "procurement list \<Rightarrow> int \<Rightarrow> error + procurement" where
  "get_object_or_404 objects k =
     (case find (\<lambda>p. pk p = k) objects of None \<Rightarrow> Inl Http404 | Some p \<Rightarrow> Inr p)"

text \<open>
  \<^verbatim>\<open>ProcurementPredictionViewSet.predict\<close>. An exception that leaves the view
  (\<^verbatim>\<open>Http404\<close>, which the framework answers with status 404) is the left summand.
\<close>

definition predict :: "predict_data \<Rightarrow> int \<Rightarrow> world \<Rightarrow> (error + response) \<times> world" where
  "predict request_data now w =
     (case PredictSerializer request_data of
        Inl errors \<Rightarrow> (Inr (Response (FieldErrors errors) HTTP_400_BAD_REQUEST), w)
      | Inr (procurement_id, ptype) \<Rightarrow>
          (case get_object_or_404 (procurements w) procurement_id of
             Inl e \<Rightarrow> (Inl e, w)
           | Inr proc \<Rightarrow>
               (let feats = extract_features proc in
                case heuristic_predict ptype feats of
                  Inl e \<Rightarrow> (Inl e, w)
                | Inr (pv, conf) \<Rightarrow>
                    (let pr = \<lparr>prediction_id = new_id (map prediction_id (predictions w)),
                               procurement_ref = pk proc,
                               ml_model_ref = None,
                               prediction_type = ptype,
                               predicted_value = pv,
                               confidence = Some conf,
                               input_features = feats,
                               prediction_created_at = now\<rparr>
                     in (Inr (Response (PredictionData pr (title proc)) HTTP_201_CREATED),
                         w\<lparr>predictions := predictions w @ [pr]\<rparr>)))))"

section \<open>Reading the claims: features with defaults, example inputs\<close>



text \<open>An environment without the trainer, and one whose trainer answers at once.\<close>

definition trainer_absent :: env where
  "trainer_absent =
     \<lparr>PLEXE_AVAILABLE = False,
      plexe_main = (\<lambda>_ _ _ _. Inl (ExternalError ''no trainer'')),
      mkdtemp = (\<lambda>prefix. ''/tmp/'' @ prefix)\<rparr>"

definition trainer_present :: env where
  "trainer_present =
     \<lparr>PLEXE_AVAILABLE = True,
      plexe_main = (\<lambda>_ _ _ _. Inr (Some \<lparr>solution_performance = 9 / 10\<rparr>, [])),
      mkdtemp = (\<lambda>prefix. ''/tmp/'' @ prefix)\<rparr>"

definition empty_world :: world where
  "empty_world = \<lparr>procurements = [], ml_models = [], predictions = [], effects = []\<rparr>"

text \<open>
  A procurement without category, city or price whose deadline lies one second before
  its creation.
\<close>

definition bare_procurement :: procurement where
  "bare_procurement =
     \<lparr>pk = 1, title = ''P1'', category = None, city = Some [], target_amount = 10000,
      current_amount = 3000, price_per_unit = None, participant_count = 6,
      created_at = 1000000, deadline = 0, status = ''completed'', progress = 30\<rparr>"

section \<open>Rounding and feature lookup\<close>










section \<open>The success heuristic\<close>







section \<open>The demand heuristic\<close>





section \<open>The price heuristic\<close>





section \<open>Feature extraction\<close>

lemma dom_extract_features:
  "dom (extract_features p) = {''category'', ''city'', ''target_amount'', ''participant_count'',
      ''days_active'', ''price_per_unit'', ''current_amount'', ''progress''}"
  by (auto simp add: extract_features_def)

text \<open>
  Claim C3: for every procurement record, \<open>extract_features\<close> returns a mapping with
  exactly the eight keys; category and city are strings, \<open>unknown\<close> when the
  category is absent and when the city is absent or empty; the target amount and the price
  per unit are floats, the price being \<open>0.0\<close> when absent or zero; the participant
  count is an integer; \<open>days_active\<close> is the larger of 0 and the whole days from
  creation to deadline, hence 0 whenever the deadline precedes the creation. The function
  is total: no input makes it raise.
\<close>

theorem extract_features_shape:
  "dom (extract_features p) =
     {''category'', ''city'', ''target_amount'', ''participant_count'', ''days_active'',
      ''price_per_unit'', ''current_amount'', ''progress''}
   \<and> (\<exists>s. extract_features p ''category'' = Some (PyStr s))
   \<and> (category p = None \<longrightarrow> extract_features p ''category'' = Some (PyStr ''unknown''))
   \<and> (\<exists>s. extract_features p ''city'' = Some (PyStr s))
   \<and> (city p = None \<or> city p = Some [] \<longrightarrow>
        extract_features p ''city'' = Some (PyStr ''unknown''))
   \<and> extract_features p ''target_amount'' = Some (PyFloat (target_amount p))
   \<and> (\<exists>x. extract_features p ''price_per_unit'' = Some (PyFloat x))
   \<and> (price_per_unit p = None \<or> price_per_unit p = Some 0 \<longrightarrow>
        extract_features p ''price_per_unit'' = Some (PyFloat 0))
   \<and> extract_features p ''participant_count'' = Some (PyInt (int (participant_count p)))
   \<and> extract_features p ''days_active'' =
        Some (PyInt (max 0 ((deadline p - created_at p) div 86400000000)))
   \<and> (deadline p < created_at p \<longrightarrow> extract_features p ''days_active'' = Some (PyInt 0))"
proof -
  have neg: "(deadline p - created_at p) div 86400000000 < 0" if "deadline p < created_at p"
    using that by (simp add: div_neg_pos_less0)
  show ?thesis
    using neg dom_extract_features [of p]
    by (auto simp add: extract_features_def category_or_unknown_def city_or_unknown_def
        price_or_zero_def days_active_of_def timedelta_days_def split: option.splits)
qed

theorem extract_features_shape_witness:
  "category bare_procurement = None \<and> city bare_procurement = Some [] \<and> price_per_unit bare_procurement = None
   \<and> deadline bare_procurement < created_at bare_procurement
   \<and> extract_features bare_procurement ''category'' = Some (PyStr ''unknown'')
   \<and> extract_features bare_procurement ''city'' = Some (PyStr ''unknown'')
   \<and> extract_features bare_procurement ''price_per_unit'' = Some (PyFloat 0)
   \<and> extract_features bare_procurement ''days_active'' = Some (PyInt 0)"
  using extract_features_shape [of bare_procurement]
  by (simp add: bare_procurement_def)

section \<open>The success dataset\<close>

lemma dom_success_row:
  "dom (success_row p) = {''category'', ''city'', ''target_amount'', ''participant_count'',
      ''days_active'', ''price_per_unit'', ''successful''}"
  by (auto simp add: success_row_def)

text \<open>
  Claim C4, as the specification states it, fails for the empty list of records: a table
  built from no rows has no columns, so its column set is empty and not the seven names.
\<close>

theorem build_success_dataset_shape_counterexample:
  "columns (build_success_dataset []) \<noteq>
     {''category'', ''city'', ''target_amount'', ''participant_count'', ''days_active'',
      ''price_per_unit'', ''successful''}"
  by (simp add: build_success_dataset_def DataFrame_def)

text \<open>
  Claim C4, amended: for every finite list of records the success dataset has as many
  rows as there are records, none filtered out; the row of the \<open>i\<close>-th record has
  exactly the seven keys, and its \<open>successful\<close> entry is 1 if the status of that
  record is \<open>completed\<close> and 0 for every other status; when the list is not empty the
  column set of the table is exactly the seven names (the empty list gives a table without
  rows and without columns); statuses \<open>completed, cancelled\<close> give 2 rows with
  \<open>successful\<close> column \<open>[1, 0]\<close>.
\<close>

theorem build_success_dataset_shape:
  "df_len (build_success_dataset rs) = length rs
   \<and> (rs \<noteq> [] \<longrightarrow> columns (build_success_dataset rs) =
        {''category'', ''city'', ''target_amount'', ''participant_count'', ''days_active'',
         ''price_per_unit'', ''successful''})
   \<and> (\<forall>i < length rs.
        dom (rows (build_success_dataset rs) ! i) =
          {''category'', ''city'', ''target_amount'', ''participant_count'', ''days_active'',
           ''price_per_unit'', ''successful''}
        \<and> (rows (build_success_dataset rs) ! i) ''successful'' =
            Some (PyInt (if status (rs ! i) = ''completed'' then 1 else 0)))
   \<and> (status p = ''completed'' \<and> status q = ''cancelled'' \<longrightarrow>
        df_len (build_success_dataset [p, q]) = 2
        \<and> map (\<lambda>r. r ''successful'') (rows (build_success_dataset [p, q]))
            = [Some (PyInt 1), Some (PyInt 0)])"
proof -
  have cols: "columns (build_success_dataset rs) =
        {''category'', ''city'', ''target_amount'', ''participant_count'', ''days_active'',
         ''price_per_unit'', ''successful''}" if "rs \<noteq> []"
    using that by (cases rs) (auto simp add: build_success_dataset_def DataFrame_def dom_success_row)
  have lab: "success_row r ''successful'' = Some (PyInt (if status r = ''completed'' then 1 else 0))" for r
    by (simp add: success_row_def)
  show ?thesis
    using cols lab dom_success_row
    by (simp add: build_success_dataset_def DataFrame_def df_len_def)
qed

theorem build_success_dataset_shape_witness:
  "df_len (build_success_dataset [bare_procurement, bare_procurement\<lparr>status := ''cancelled''\<rparr>]) = 2
   \<and> map (\<lambda>r. r ''successful'')
        (rows (build_success_dataset [bare_procurement, bare_procurement\<lparr>status := ''cancelled''\<rparr>]))
      = [Some (PyInt 1), Some (PyInt 0)]
   \<and> columns (build_success_dataset [bare_procurement, bare_procurement\<lparr>status := ''cancelled''\<rparr>]) =
        {''category'', ''city'', ''target_amount'', ''participant_count'', ''days_active'',
         ''price_per_unit'', ''successful''}"
  using build_success_dataset_shape [of "[bare_procurement, bare_procurement\<lparr>status := ''cancelled''\<rparr>]" bare_procurement "bare_procurement\<lparr>status := ''cancelled''\<rparr>"]
  by (simp add: bare_procurement_def)

section \<open>Dataset rows and extracted features\<close>

text \<open>
  Claim C10: the row the success builder computes for a record is the restriction of
  \<open>extract_features\<close> of that record to the six shared keys, extended with the
  \<open>successful\<close> label, and the row the demand builder computes is the restriction to
  its five keys; each builder maps its row function over the records.
\<close>

theorem dataset_rows_restrict_features:
  "success_row r =
     (extract_features r |` {''category'', ''city'', ''target_amount'', ''participant_count'',
                            ''days_active'', ''price_per_unit''})
       (''successful'' \<mapsto> PyInt (if status r = ''completed'' then 1 else 0))
   \<and> demand_row r =
       extract_features r |` {''category'', ''city'', ''target_amount'', ''price_per_unit'',
                              ''participant_count''}
   \<and> rows (build_success_dataset rs) = map success_row rs
   \<and> rows (build_demand_dataset rs) = map demand_row rs"
proof -
  have 1: "success_row r =
     (extract_features r |` {''category'', ''city'', ''target_amount'', ''participant_count'',
                            ''days_active'', ''price_per_unit''})
       (''successful'' \<mapsto> PyInt (if status r = ''completed'' then 1 else 0))"
    by (rule ext) (simp add: success_row_def extract_features_def restrict_map_def)
  have 2: "demand_row r =
       extract_features r |` {''category'', ''city'', ''target_amount'', ''price_per_unit'',
                              ''participant_count''}"
    by (rule ext) (simp add: demand_row_def extract_features_def restrict_map_def)
  show ?thesis using 1 2 by (simp add: build_success_dataset_def build_demand_dataset_def DataFrame_def)
qed

section \<open>Training on an empty record source\<close>

lemma df_empty_success: "df_empty (build_success_dataset qs) = (df_len (build_success_dataset qs) = 0)"
  by (cases qs) (auto simp: df_empty_def df_len_def build_success_dataset_def DataFrame_def success_row_def)

lemma df_empty_demand: "df_empty (build_demand_dataset qs) = (df_len (build_demand_dataset qs) = 0)"
  by (cases qs) (auto simp: df_empty_def df_len_def build_demand_dataset_def DataFrame_def demand_row_def)

lemma train_success_model_empty:
  assumes "df_len (build_success_dataset
             (case qs of None \<Rightarrow> filter (\<lambda>p. status p \<in> set [''completed'', ''cancelled'']) objects
                       | Some q \<Rightarrow> q)) = 0"
  shows "train_success_model ev objects qs wd mi effs =
           (if PLEXE_AVAILABLE ev
            then Inl (ValueError ''Not enough training data. Need completed/cancelled procurements.'')
            else Inl (RuntimeError ''plexe is not installed. Install it with: pip install plexe''),
            effs)"
  using assms
  by (simp add: train_success_model_def require_plexe_def df_empty_success Let_def)

lemma train_demand_forecast_model_empty:
  assumes "df_len (build_demand_dataset
             (case qs of None \<Rightarrow> filter (\<lambda>p. status p = ''completed'') objects
                       | Some q \<Rightarrow> q)) = 0"
  shows "train_demand_forecast_model ev objects qs wd mi effs =
           (if PLEXE_AVAILABLE ev
            then Inl (ValueError ''Not enough training data. Need completed procurements.'')
            else Inl (RuntimeError ''plexe is not installed. Install it with: pip install plexe''),
            effs)"
  using assms
  by (simp add: train_demand_forecast_model_def require_plexe_def df_empty_demand Let_def)

text \<open>A run that gets as far as the trainer leaves the call in the log.\<close>

lemma persist_and_train_invokes:
  "\<exists>path dir. PlexeMain intent_text [path] mi dir
      \<in> set (snd (persist_and_train ev prefix file_name intent_text df wd mi effs))"
  by (auto simp: persist_and_train_def Let_def split: sum.splits prod.splits)

text \<open>
  Claim C5, as the specification states it, fails where the trainer is not installed: each
  training method first calls \<^verbatim>\<open>_require_plexe()\<close>, so an empty record source then
  leads to the run-time error about the missing trainer and not to the insufficient-data
  error. (The trainer is not invoked in that case either.)
\<close>

theorem train_empty_source_counterexample:
  "df_len (build_success_dataset []) = 0
   \<and> train_success_model trainer_absent [] (Some []) None 3 [] =
       (Inl (RuntimeError ''plexe is not installed. Install it with: pip install plexe''), [])"
  by (simp add: train_success_model_def require_plexe_def trainer_absent_def df_len_def
      build_success_dataset_def DataFrame_def)

text \<open>
  Claim C5, amended: for every record source that produces zero dataset rows (the empty
  source included), each training operation, success and demand, leaves the log of
  external effects as it was, so the trainer entry point is never invoked on that run;
  where the trainer is available the operation raises the insufficient-data error whose
  message starts with \<open>Not enough training data\<close>, and where it is not available it
  raises the error that the trainer is not installed.
\<close>

theorem train_empty_source:
  "(df_len (build_success_dataset
       (case qs of None \<Rightarrow> filter (\<lambda>p. status p \<in> set [''completed'', ''cancelled'']) objects
                 | Some q \<Rightarrow> q)) = 0 \<longrightarrow>
      snd (train_success_model ev objects qs wd mi effs) = effs
      \<and> (PLEXE_AVAILABLE ev \<longrightarrow>
           fst (train_success_model ev objects qs wd mi effs) =
             Inl (ValueError ''Not enough training data. Need completed/cancelled procurements.''))
      \<and> (\<not> PLEXE_AVAILABLE ev \<longrightarrow>
           fst (train_success_model ev objects qs wd mi effs) =
             Inl (RuntimeError ''plexe is not installed. Install it with: pip install plexe'')))
   \<and> (df_len (build_demand_dataset
         (case qs of None \<Rightarrow> filter (\<lambda>p. status p = ''completed'') objects
                   | Some q \<Rightarrow> q)) = 0 \<longrightarrow>
      snd (train_demand_forecast_model ev objects qs wd mi effs) = effs
      \<and> (PLEXE_AVAILABLE ev \<longrightarrow>
           fst (train_demand_forecast_model ev objects qs wd mi effs) =
             Inl (ValueError ''Not enough training data. Need completed procurements.''))
      \<and> (\<not> PLEXE_AVAILABLE ev \<longrightarrow>
           fst (train_demand_forecast_model ev objects qs wd mi effs) =
             Inl (RuntimeError ''plexe is not installed. Install it with: pip install plexe'')))"
  using train_success_model_empty [where qs = qs and objects = objects and ev = ev]
        train_demand_forecast_model_empty [where qs = qs and objects = objects and ev = ev]
  by simp

theorem train_empty_source_witness:
  "PLEXE_AVAILABLE trainer_present
   \<and> train_success_model trainer_present [bare_procurement\<lparr>status := ''active''\<rparr>] None None 3 [] =
       (Inl (ValueError ''Not enough training data. Need completed/cancelled procurements.''), [])
   \<and> train_demand_forecast_model trainer_present [bare_procurement] (Some []) None 3 [] =
       (Inl (ValueError ''Not enough training data. Need completed procurements.''), [])"
  using train_empty_source [where qs = None and objects = "[bare_procurement\<lparr>status := ''active''\<rparr>]"
              and ev = trainer_present and wd = None and mi = 3 and effs = "[]"]
        train_empty_source [where qs = "Some []" and objects = "[bare_procurement]"
              and ev = trainer_present and wd = None and mi = 3 and effs = "[]"]
  by (simp add: trainer_present_def bare_procurement_def df_len_def build_success_dataset_def
      build_demand_dataset_def DataFrame_def prod_eq_iff)

section \<open>The train and predict views\<close>


text \<open>Every other body passes validation.\<close>

lemma TrainModelSerializer_accepts:
  assumes "\<exists>s. data_model_type d = Some s
                  \<and> s \<in> {''success_prediction'', ''demand_forecast'', ''price_optimization''}"
    and "\<forall>n. data_max_iterations d = Some n \<longrightarrow> 1 \<le> n \<and> n \<le> 20"
  shows "\<exists>v. TrainModelSerializer d = Inr v"
  using assms
  by (auto simp add: TrainModelSerializer_def choice_field_def integer_field_def errors_of_def
      ModelType_choices_def SUCCESS_PREDICTION_def DEMAND_FORECAST_def PRICE_OPTIMIZATION_def
      Let_def split: option.splits sum.splits)




lemma find_no_procurement: "\<forall>p \<in> set xs. pk p \<noteq> k \<Longrightarrow> find (\<lambda>p. pk p = k) xs = None"
  by (simp add: find_None_iff)

text \<open>
  Claim C9, as the specification states it, fails for a request that also names an unknown
  prediction kind: the body is validated before the procurement is looked up, so the
  answer is the client error 400 and not the not-found condition.
\<close>

theorem predict_missing_procurement_counterexample:
  "find (\<lambda>p. pk p = 99999) (procurements empty_world) = None
   \<and> fst (predict \<lparr>data_procurement_id = Some 99999, data_prediction_type = Some ''bogus''\<rparr>
            5 empty_world)
     = Inr (Response (FieldErrors [(''prediction_type'', InvalidChoice ''bogus'')]) 400)"
  by (simp add: predict_def PredictSerializer_def choice_field_def integer_field_def
      errors_of_def ModelType_choices_def SUCCESS_PREDICTION_def DEMAND_FORECAST_def
      PRICE_OPTIMIZATION_def HTTP_400_BAD_REQUEST_def empty_world_def)

text \<open>
  Claim C9, amended: for every prediction request whose \<open>procurement_id\<close> refers to no
  existing procurement, the predict operation creates no prediction record: the state
  after the request equals the state before it. The answer is the not-found condition
  when the prediction kind is absent or one of the three declared kinds, and the client
  error 400 naming the field \<open>prediction_type\<close> otherwise.
\<close>

theorem predict_missing_procurement:
  assumes "data_procurement_id d = Some k"
    and "\<forall>p \<in> set (procurements w). pk p \<noteq> k"
  shows "snd (predict d now w) = w
       \<and> (data_prediction_type d = None
            \<or> (\<exists>s. data_prediction_type d = Some s
                   \<and> s \<in> {''success_prediction'', ''demand_forecast'', ''price_optimization''})
          \<longrightarrow> fst (predict d now w) = Inl Http404)
       \<and> (\<forall>s. data_prediction_type d = Some s
               \<and> s \<notin> {''success_prediction'', ''demand_forecast'', ''price_optimization''}
          \<longrightarrow> fst (predict d now w) =
                Inr (Response (FieldErrors [(''prediction_type'', InvalidChoice s)]) 400))"
  using assms(1) find_no_procurement [OF assms(2)]
  by (auto simp add: predict_def PredictSerializer_def choice_field_def integer_field_def
      errors_of_def ModelType_choices_def SUCCESS_PREDICTION_def DEMAND_FORECAST_def
      PRICE_OPTIMIZATION_def HTTP_400_BAD_REQUEST_def get_object_or_404_def Let_def
      split: option.splits)

theorem predict_missing_procurement_witness:
  "predict \<lparr>data_procurement_id = Some 99999, data_prediction_type = Some ''success_prediction''\<rparr>
     5 (empty_world\<lparr>procurements := [bare_procurement]\<rparr>)
   = (Inl Http404, empty_world\<lparr>procurements := [bare_procurement]\<rparr>)"
  using predict_missing_procurement [of "\<lparr>data_procurement_id = Some 99999, data_prediction_type = Some ''success_prediction''\<rparr>"
      99999 "empty_world\<lparr>procurements := [bare_procurement]\<rparr>" 5]
  by (simp add: empty_world_def bare_procurement_def prod_eq_iff)

section \<open>Runs of the views on small states\<close>

text \<open>
  A training request that succeeds, one that fails for lack of data, and a prediction for
  an existing procurement.
\<close>

lemma train_success_example:
  "status_code (fst (train trainer_present
      \<lparr>data_model_type = Some ''success_prediction'', data_max_iterations = None,
       data_work_dir = Some ''  ''\<rparr> 10 20 (empty_world\<lparr>procurements := [bare_procurement]\<rparr>))) = 201
   \<and> map model_status (ml_models (snd (train trainer_present
      \<lparr>data_model_type = Some ''success_prediction'', data_max_iterations = None,
       data_work_dir = Some ''  ''\<rparr> 10 20 (empty_world\<lparr>procurements := [bare_procurement]\<rparr>)))) = [READY]
   \<and> length (effects (snd (train trainer_present
      \<lparr>data_model_type = Some ''success_prediction'', data_max_iterations = None,
       data_work_dir = Some ''  ''\<rparr> 10 20 (empty_world\<lparr>procurements := [bare_procurement]\<rparr>)))) = 4"
  by (simp add: train_def trainer_present_def empty_world_def bare_procurement_def
      TrainModelSerializer_def choice_field_def integer_field_def errors_of_def
      ModelType_choices_def SUCCESS_PREDICTION_def DEMAND_FORECAST_def PRICE_OPTIMIZATION_def
      HTTP_201_CREATED_def save_model_def new_id_def Let_def strip_def is_space_def
      train_success_model_def require_plexe_def df_empty_def build_success_dataset_def
      DataFrame_def success_row_def persist_and_train_def)

lemma train_failed_example:
  "status_code (fst (train trainer_present
      \<lparr>data_model_type = Some ''demand_forecast'', data_max_iterations = Some 5,
       data_work_dir = None\<rparr> 10 20 empty_world)) = 500
   \<and> map training_metadata (ml_models (snd (train trainer_present
      \<lparr>data_model_type = Some ''demand_forecast'', data_max_iterations = Some 5,
       data_work_dir = None\<rparr> 10 20 empty_world))) = [ErrorMetadata ''Not enough training data. Need completed procurements.'']"
  by (simp add: train_def trainer_present_def empty_world_def
      TrainModelSerializer_def choice_field_def integer_field_def errors_of_def
      ModelType_choices_def SUCCESS_PREDICTION_def DEMAND_FORECAST_def PRICE_OPTIMIZATION_def
      HTTP_500_INTERNAL_SERVER_ERROR_def save_model_def new_id_def Let_def
      train_demand_forecast_model_def require_plexe_def df_empty_def build_demand_dataset_def
      DataFrame_def)

lemma predict_existing_procurement_example:
  "\<exists>r. predict \<lparr>data_procurement_id = Some 1, data_prediction_type = None\<rparr> 5
          (empty_world\<lparr>procurements := [bare_procurement]\<rparr>)
      = (Inr r,
         empty_world
           \<lparr>procurements := [bare_procurement],
            predictions :=
              [\<lparr>prediction_id = 1, procurement_ref = 1, ml_model_ref = None,
                prediction_type = ''success_prediction'', predicted_value = 3633 / 10000,
                confidence = Some (1 / 2), input_features = extract_features bare_procurement,
                prediction_created_at = 5\<rparr>]\<rparr>)"
  by (simp add: predict_def PredictSerializer_def choice_field_def integer_field_def
      errors_of_def ModelType_choices_def SUCCESS_PREDICTION_def DEMAND_FORECAST_def
      PRICE_OPTIMIZATION_def HTTP_201_CREATED_def empty_world_def bare_procurement_def
      get_object_or_404_def heuristic_predict_def extract_features_def dict_get_def
      truediv_def max_one_def days_active_of_def timedelta_days_def py_round_def
      round_half_even_def new_id_def Let_def)

end
